theory Spec2Isabelle
  imports Main "HOL-Library.Sublist"
begin

section \<open>Character classes of Python strings\<close>

text \<open>
  A Python string is a sequence of code points. The model represents a string as a
  \<^typ>\<open>string\<close> whose characters are the code points 0 to 255 (Latin-1); the
  classification functions below are those of Python 3 on that range.
\<close>

definition py_isspace :: "char \<Rightarrow> bool" where
  \<comment> \<open>\<open>str.isspace\<close> on one character; also the class \<open>\s\<close> of \<open>re\<close> on str patterns.\<close>
  "py_isspace c \<longleftrightarrow>
     c \<in> {CHR 0x09, CHR 0x0A, CHR 0x0B, CHR 0x0C, CHR 0x0D,
          CHR 0x1C, CHR 0x1D, CHR 0x1E, CHR 0x1F, CHR 0x20, CHR 0x85, CHR 0xA0}"

definition in_range :: "nat \<Rightarrow> nat \<Rightarrow> char \<Rightarrow> bool" where
  "in_range lo hi c \<longleftrightarrow> lo \<le> of_char c \<and> (of_char c :: nat) \<le> hi"

definition py_isdecimal :: "char \<Rightarrow> bool" where
  \<comment> \<open>the class \<open>\d\<close>: the decimal digits\<close>
  "py_isdecimal c \<longleftrightarrow> in_range 48 57 c"

definition py_isalpha :: "char \<Rightarrow> bool" where
  \<comment> \<open>\<open>str.isalpha\<close> on one character\<close>
  "py_isalpha c \<longleftrightarrow>
     in_range 65 90 c \<or> in_range 97 122 c \<or> c = CHR 0xAA \<or> c = CHR 0xB5 \<or> c = CHR 0xBA \<or>
     in_range 192 214 c \<or> in_range 216 246 c \<or> in_range 248 255 c"

definition py_isword :: "char \<Rightarrow> bool" where
  \<comment> \<open>the class \<open>\w\<close>: alphanumeric characters and the underscore\<close>
  "py_isword c \<longleftrightarrow>
     py_isalpha c \<or> py_isdecimal c \<or> c = CHR ''_'' \<or>
     in_range 178 179 c \<or> c = CHR 0xB9 \<or> in_range 188 190 c"

definition py_isupper :: "char \<Rightarrow> bool" where
  \<comment> \<open>\<open>str.isupper\<close> on one character\<close>
  "py_isupper c \<longleftrightarrow> in_range 65 90 c \<or> in_range 192 214 c \<or> in_range 216 222 c"

definition py_islower :: "char \<Rightarrow> bool" where
  \<comment> \<open>\<open>str.islower\<close> on one character\<close>
  "py_islower c \<longleftrightarrow>
     in_range 97 122 c \<or> c = CHR 0xAA \<or> c = CHR 0xB5 \<or> c = CHR 0xBA \<or>
     in_range 223 246 c \<or> in_range 248 255 c"

definition py_lower_c :: "char \<Rightarrow> char" where
  "py_lower_c c = (if py_isupper c then char_of (of_char c + (32::nat)) else c)"

definition py_lower :: "string \<Rightarrow> string" where
  \<comment> \<open>\<open>str.lower()\<close>\<close>
  "py_lower s = map py_lower_c s"

definition py_title_c :: "char \<Rightarrow> string" where
  \<comment> \<open>The title-case form of one character. The title-case forms of U+00B5 and U+00FF
      (U+039C and U+0178) lie outside the modelled range: the model leaves these two
      characters unchanged.\<close>
  "py_title_c c =
     (if c = CHR 0xDF then ''Ss''
      else if c = CHR 0xB5 \<or> c = CHR 0xFF \<or> c = CHR 0xAA \<or> c = CHR 0xBA then [c]
      else if py_islower c then [char_of (of_char c - (32::nat))]
      else [c])"

fun title_from :: "bool \<Rightarrow> string \<Rightarrow> string" where
  "title_from previous_is_cased [] = []"
| "title_from previous_is_cased (c # cs) =
     (if previous_is_cased then [py_lower_c c] else py_title_c c)
       @ title_from (py_isupper c \<or> py_islower c) cs"

definition py_title :: "string \<Rightarrow> string" where
  \<comment> \<open>\<open>str.title()\<close>\<close>
  "py_title s = title_from False s"

section \<open>String operations\<close>

fun startswith :: "string \<Rightarrow> string \<Rightarrow> bool" where
  "startswith s [] = True"
| "startswith [] (p # ps) = False"
| "startswith (c # cs) (p # ps) = (c = p \<and> startswith cs ps)"

fun contains :: "string \<Rightarrow> string \<Rightarrow> bool" where
  \<comment> \<open>\<open>sub in s\<close>, written \<open>contains s sub\<close>\<close>
  "contains [] sub = (sub = [])"
| "contains (c # cs) sub = (startswith (c # cs) sub \<or> contains cs sub)"

function py_count :: "string \<Rightarrow> string \<Rightarrow> nat" where
  \<comment> \<open>\<open>s.count(sub)\<close>: the number of non-overlapping occurrences\<close>
  "py_count s sub =
     (if sub = [] then length s + 1
      else if s = [] then 0
      else if startswith s sub then 1 + py_count (drop (length sub) s) sub
      else py_count (tl s) sub)"
  by pat_completeness auto
termination
  by (relation "measure (\<lambda>(s, sub). length s)") auto

declare py_count.simps [simp del]

definition py_lstrip :: "string \<Rightarrow> string" where
  "py_lstrip s = dropWhile py_isspace s"

definition py_rstrip :: "string \<Rightarrow> string" where
  "py_rstrip s = rev (dropWhile py_isspace (rev s))"

definition py_strip :: "string \<Rightarrow> string" where
  \<comment> \<open>\<open>str.strip()\<close> without argument\<close>
  "py_strip s = py_rstrip (py_lstrip s)"

function py_split :: "string \<Rightarrow> string list" where
  \<comment> \<open>\<open>str.split()\<close> without argument: the maximal runs of non-whitespace\<close>
  "py_split s =
     (let t = dropWhile py_isspace s in
      if t = [] then []
      else takeWhile (\<lambda>c. \<not> py_isspace c) t
             # py_split (dropWhile (\<lambda>c. \<not> py_isspace c) t))"
  by pat_completeness auto
termination
proof (relation "measure length")
  show "wf (measure length)" by simp
next
  fix s t :: string
  assume t: "t = dropWhile py_isspace s" and ne: "t \<noteq> []"
  from ne obtain c cs where cs: "t = c # cs" by (cases t) auto
  have "\<not> py_isspace (hd t)" using ne hd_dropWhile[of py_isspace s] t by simp
  then have "dropWhile (\<lambda>c. \<not> py_isspace c) t = dropWhile (\<lambda>c. \<not> py_isspace c) cs"
    using cs by simp
  then have "length (dropWhile (\<lambda>c. \<not> py_isspace c) t) \<le> length cs"
    by (simp add: length_dropWhile_le)
  also have "length cs < length t" using cs by simp
  also have "length t \<le> length s" using t by (simp add: length_dropWhile_le)
  finally show "(dropWhile (\<lambda>c. \<not> py_isspace c) t, s) \<in> measure length" by simp
qed

declare py_split.simps [simp del]

fun split_on :: "char \<Rightarrow> string \<Rightarrow> string list" where
  \<comment> \<open>\<open>s.split(sep)\<close> for a separator of one character\<close>
  "split_on sep [] = [[]]"
| "split_on sep (c # cs) =
     (if c = sep then [] # split_on sep cs
      else (let r = split_on sep cs in (c # hd r) # tl r))"

fun join :: "string \<Rightarrow> string list \<Rightarrow> string" where
  \<comment> \<open>\<open>sep.join(xs)\<close>\<close>
  "join sep [] = []"
| "join sep [x] = x"
| "join sep (x # y # ys) = x @ sep @ join sep (y # ys)"

definition py_list_set :: "'a list \<Rightarrow> 'a list" where
  \<comment> \<open>\<open>list(set(xs))\<close>: the distinct elements of \<open>xs\<close>. Python leaves the order of the
      result open; the model fixes one order.\<close>
  "py_list_set xs = remdups xs"

section \<open>The text normalizer\<close>

text \<open>\<open>re.sub(r'\s+', ' ', text)\<close>: every maximal run of whitespace becomes one space.\<close>

function sub_ws :: "string \<Rightarrow> string" where
  "sub_ws [] = []"
| "sub_ws (c # cs) =
     (if py_isspace c then CHR '' '' # sub_ws (dropWhile py_isspace cs)
      else c # sub_ws cs)"
  by pat_completeness auto
termination
  by (relation "measure length") (auto simp: length_dropWhile_le less_Suc_eq_le)

text \<open>\<open>re.sub(r'\n+', '\n', text)\<close>: every maximal run of newlines becomes one newline.\<close>

function sub_nl :: "string \<Rightarrow> string" where
  "sub_nl [] = []"
| "sub_nl (c # cs) =
     (if c = CHR 0x0A then CHR 0x0A # sub_nl (dropWhile (\<lambda>d. d = CHR 0x0A) cs)
      else c # sub_nl cs)"
  by pat_completeness auto
termination
  by (relation "measure length") (auto simp: length_dropWhile_le less_Suc_eq_le)

definition clean_text :: "string \<Rightarrow> string" where
  "clean_text text = py_strip (sub_nl (sub_ws text))"

section \<open>Regular expressions\<close>

text \<open>
  The patterns of the source are written as terms of \<open>regex\<close> and run by a backtracking
  matcher that returns every way to match at the current position, in the order in which
  Python's \<open>re\<close> tries them (greedy operators try the longer match first), so the head of
  the result is the match \<open>re\<close> finds. A matcher state is the character before the
  position (for \<open>\b\<close>), the text from the position on, and the groups captured so far,
  the latest first.
\<close>

datatype regex =
    Eps
  | Lit char
  | Cls "char \<Rightarrow> bool"
  | WordB
  | Seq regex regex
  | Alt regex regex
  | Opt regex
  | Star regex
  | LazyStar regex
  | Grp nat regex

type_synonym groups = "(nat \<times> string) list"

type_synonym mstate = "char option \<times> string \<times> groups"

definition at_boundary :: "char option \<Rightarrow> string \<Rightarrow> bool" where
  \<comment> \<open>\<open>\b\<close>: exactly one of the two neighbouring characters is a word character\<close>
  "at_boundary prev s \<longleftrightarrow>
     (case prev of None \<Rightarrow> False | Some c \<Rightarrow> py_isword c)
       \<noteq> (case s of [] \<Rightarrow> False | d # ds \<Rightarrow> py_isword d)"

definition shorter :: "string \<Rightarrow> mstate \<Rightarrow> bool" where
  "shorter s st \<longleftrightarrow> length (fst (snd st)) < length s"

text \<open>
  The flag \<open>ic\<close> is \<open>re.IGNORECASE\<close>: a literal then matches a character with the same
  lower-case form. The character classes of the patterns below are closed under case, so
  the flag does not change them. An iteration of a starred pattern that consumes nothing
  is dropped; no starred pattern of the source can match the empty string.
\<close>

function (sequential) rmatch :: "bool \<Rightarrow> regex \<Rightarrow> mstate \<Rightarrow> mstate list" where
  "rmatch ic Eps st = [st]"
| "rmatch ic (Lit c) (p, [], g) = []"
| "rmatch ic (Lit c) (p, d # ds, g) =
     (if (if ic then py_lower_c d = py_lower_c c else d = c) then [(Some d, ds, g)] else [])"
| "rmatch ic (Cls P) (p, [], g) = []"
| "rmatch ic (Cls P) (p, d # ds, g) = (if P d then [(Some d, ds, g)] else [])"
| "rmatch ic WordB (p, s, g) = (if at_boundary p s then [(p, s, g)] else [])"
| "rmatch ic (Seq a b) st = concat (map (rmatch ic b) (rmatch ic a st))"
| "rmatch ic (Alt a b) st = rmatch ic a st @ rmatch ic b st"
| "rmatch ic (Opt a) st = rmatch ic a st @ [st]"
| "rmatch ic (Star a) (p, s, g) =
     concat (map (rmatch ic (Star a)) (filter (shorter s) (rmatch ic a (p, s, g))))
       @ [(p, s, g)]"
| "rmatch ic (LazyStar a) (p, s, g) =
     (p, s, g)
       # concat (map (rmatch ic (LazyStar a)) (filter (shorter s) (rmatch ic a (p, s, g))))"
| "rmatch ic (Grp n a) (p, s, g) =
     map (\<lambda>st'. (fst st', fst (snd st'),
                 (n, take (length s - length (fst (snd st'))) s) # snd (snd st')))
       (rmatch ic a (p, s, g))"
  by pat_completeness auto
termination
  by (relation "measures [\<lambda>(ic, r, st). size r, \<lambda>(ic, r, (p, s, g)). length s]")
     (auto simp: shorter_def)

text \<open>
  \<open>re.findall\<close>: the leftmost match from each position, the search resuming where the
  match ended. Each match is returned as its text and its groups.
\<close>

function findall_from :: "bool \<Rightarrow> regex \<Rightarrow> char option \<Rightarrow> string \<Rightarrow> (string \<times> groups) list" where
  "findall_from ic r p s =
     (case rmatch ic r (p, s, []) of
        [] \<Rightarrow> (case s of [] \<Rightarrow> [] | c # cs \<Rightarrow> findall_from ic r (Some c) cs)
      | st # _ \<Rightarrow>
          (take (length s - length (fst (snd st))) s, snd (snd st))
            # (if shorter s st then findall_from ic r (fst st) (fst (snd st))
               else (case s of [] \<Rightarrow> [] | c # cs \<Rightarrow> findall_from ic r (Some c) cs)))"
  by pat_completeness auto
termination
  by (relation "measure (\<lambda>(ic, r, p, s). length s)") (auto simp: shorter_def)

declare findall_from.simps [simp del]

definition findall :: "bool \<Rightarrow> regex \<Rightarrow> string \<Rightarrow> (string \<times> groups) list" where
  "findall ic r s = findall_from ic r None s"

definition whole :: "string \<times> groups \<Rightarrow> string" where
  \<comment> \<open>the text of a match: what \<open>findall\<close> returns for a pattern without groups\<close>
  "whole m = fst m"

definition group :: "nat \<Rightarrow> string \<times> groups \<Rightarrow> string" where
  \<comment> \<open>the text of a group, empty when the group took no part in the match\<close>
  "group n m = (case map_of (snd m) n of None \<Rightarrow> [] | Some s \<Rightarrow> s)"

fun lits :: "string \<Rightarrow> regex" where
  "lits [] = Eps"
| "lits [c] = Lit c"
| "lits (c # cs) = Seq (Lit c) (lits cs)"

fun alts :: "regex list \<Rightarrow> regex" where
  "alts [] = Cls (\<lambda>c. False)"
| "alts [r] = r"
| "alts (r # rs) = Alt r (alts rs)"

fun seqs :: "regex list \<Rightarrow> regex" where
  "seqs [] = Eps"
| "seqs [r] = r"
| "seqs (r # rs) = Seq r (seqs rs)"

definition Plus :: "regex \<Rightarrow> regex" where
  \<comment> \<open>\<open>r+\<close>\<close>
  "Plus r = Seq r (Star r)"

fun times :: "nat \<Rightarrow> regex \<Rightarrow> regex" where
  \<comment> \<open>\<open>r{n}\<close>\<close>
  "times 0 r = Eps"
| "times (Suc n) r = Seq r (times n r)"

fun upto_times :: "nat \<Rightarrow> regex \<Rightarrow> regex" where
  \<comment> \<open>\<open>r{0,n}\<close>, greedy\<close>
  "upto_times 0 r = Eps"
| "upto_times (Suc n) r = Opt (Seq r (upto_times n r))"

definition between :: "nat \<Rightarrow> nat \<Rightarrow> regex \<Rightarrow> regex" where
  \<comment> \<open>\<open>r{m,n}\<close>, greedy\<close>
  "between m n r = Seq (times m r) (upto_times (n - m) r)"

definition any_of :: "string \<Rightarrow> char \<Rightarrow> bool" where
  "any_of cs c \<longleftrightarrow> c \<in> set cs"

definition ascii_letter :: "char \<Rightarrow> bool" where
  \<comment> \<open>\<open>[A-Za-z]\<close>\<close>
  "ascii_letter c \<longleftrightarrow> in_range 65 90 c \<or> in_range 97 122 c"

section \<open>The keyword lists of the parser\<close>

definition skills_keywords :: "string list" where
  "skills_keywords =
     [''python'', ''java'', ''javascript'', ''typescript'', ''c++'', ''c#'', ''php'',
      ''ruby'', ''go'', ''rust'', ''swift'', ''kotlin'', ''scala'', ''r'', ''matlab'',
      ''sql'', ''html'', ''css'', ''sass'', ''less'', ''react'', ''angular'', ''vue'',
      ''node.js'', ''express'', ''django'', ''flask'', ''spring'', ''laravel'', ''rails'',
      ''asp.net'', ''.net'', ''fastapi'', ''nextjs'', ''nuxt'', ''svelte'', ''jquery'',
      ''mysql'', ''postgresql'', ''mongodb'', ''redis'', ''sqlite'', ''oracle'',
      ''sql server'', ''elasticsearch'', ''firebase'', ''dynamodb'', ''cassandra'',
      ''neo4j'', ''aws'', ''azure'', ''gcp'', ''google cloud'', ''docker'', ''kubernetes'',
      ''jenkins'', ''gitlab ci'', ''github actions'', ''terraform'', ''ansible'',
      ''vagrant'', ''chef'', ''puppet'', ''machine learning'', ''deep learning'',
      ''artificial intelligence'', ''data science'', ''pandas'', ''numpy'',
      ''scikit-learn'', ''tensorflow'', ''pytorch'', ''keras'', ''opencv'', ''nltk'',
      ''spacy'', ''git'', ''linux'', ''unix'', ''windows'', ''macos'', ''bash'',
      ''powershell'', ''rest api'', ''graphql'', ''microservices'', ''agile'', ''scrum'',
      ''kanban'', ''jira'', ''confluence'', ''slack'', ''teams'']"

definition experience_keywords :: "string list" where
  "experience_keywords =
     [''intern'', ''junior'', ''senior'', ''lead'', ''principal'', ''architect'',
      ''manager'', ''director'', ''ceo'', ''cto'', ''vp'', ''head'', ''specialist'',
      ''consultant'', ''analyst'', ''developer'', ''engineer'', ''programmer'',
      ''designer'', ''administrator'']"

section \<open>Personal information\<close>

record personal =
  name :: "string option"
  extracted_from :: string

definition first_upper :: "string \<Rightarrow> bool" where
  \<comment> \<open>\<open>word[0].isupper()\<close>; the words of \<open>py_split\<close> are never empty\<close>
  "first_upper word = (case word of [] \<Rightarrow> False | c # cs \<Rightarrow> py_isupper c)"

definition py_isalpha_str :: "string \<Rightarrow> bool" where
  \<comment> \<open>\<open>str.isalpha()\<close>: false on the empty string\<close>
  "py_isalpha_str s \<longleftrightarrow> s \<noteq> [] \<and> list_all py_isalpha s"

definition remove_char :: "char \<Rightarrow> string \<Rightarrow> string" where
  \<comment> \<open>\<open>s.replace(c, '')\<close>\<close>
  "remove_char c s = filter (\<lambda>d. d \<noteq> c) s"

definition name_line :: "string \<Rightarrow> bool" where
  \<comment> \<open>the three nested tests of the loop body, on the stripped line\<close>
  "name_line line \<longleftrightarrow>
     (0 < length line \<and>
      \<not> list_ex (\<lambda>keyword. contains (py_lower line) keyword)
           [''email'', ''phone'', ''address'', ''linkedin'']) \<and>
     (let words = py_split line in
        (2 \<le> length words \<and> length words \<le> 4 \<and>
         list_all (\<lambda>word. py_isalpha_str (remove_char CHR ''.'' word)) words) \<and>
        list_ex first_upper words)"

fun scan_name :: "string list \<Rightarrow> string option" where
  "scan_name [] = None"
| "scan_name (l # ls) =
     (let line = py_strip l in if name_line line then Some line else scan_name ls)"

fun first_person :: "(string \<times> string) list \<Rightarrow> string option" where
  \<comment> \<open>the first entity, given as (text, label), labelled PERSON\<close>
  "first_person [] = None"
| "first_person (ent # ents) =
     (if snd ent = ''PERSON'' then Some (fst ent) else first_person ents)"

definition extract_personal_info ::
    "(string \<Rightarrow> (string \<times> string) list) option \<Rightarrow> string \<Rightarrow> personal" where
  \<comment> \<open>\<open>nlp\<close> is \<open>self.nlp\<close>: the entity recognizer, or None when it is not loaded\<close>
  "extract_personal_info nlp text =
     (let lines = take 5 (split_on (CHR 0x0A) text);
          found = scan_name lines;
          found' = (case nlp of
                      None \<Rightarrow> found
                    | Some recognize \<Rightarrow>
                        if found = None then first_person (recognize (take 500 text))
                        else found)
      in \<lparr>name = found', extracted_from = ''text_analysis''\<rparr>)"

section \<open>Contact information\<close>

record contact =
  emails :: "string list"
  phones :: "string list"
  linkedin :: "string option"
  location :: "(string \<times> string) option"

definition email_pattern :: regex where
  "email_pattern =
     seqs [WordB,
           Plus (Cls (\<lambda>c. ascii_letter c \<or> py_isdecimal c \<or> any_of ''._%+-'' c)),
           Lit CHR ''@'',
           Plus (Cls (\<lambda>c. ascii_letter c \<or> py_isdecimal c \<or> any_of ''.-'' c)),
           Lit CHR ''.'',
           times 2 (Cls (\<lambda>c. ascii_letter c \<or> c = CHR ''|'')),
           Star (Cls (\<lambda>c. ascii_letter c \<or> c = CHR ''|'')),
           WordB]"

definition phone_patterns :: "regex list" where
  "phone_patterns =
     [seqs [Opt (Lit CHR ''+''), Opt (Lit CHR ''1''), Opt (Cls (any_of ''-.'')),
            Opt (Lit CHR ''(''), times 3 (Cls py_isdecimal), Opt (Lit CHR '')''),
            Opt (Cls (any_of ''-.'')), times 3 (Cls py_isdecimal),
            Opt (Cls (any_of ''-.'')), times 4 (Cls py_isdecimal)],
      seqs [Opt (Lit CHR ''+''), between 1 3 (Cls py_isdecimal), Opt (Cls (any_of ''-.'')),
            Opt (Lit CHR ''(''), between 3 4 (Cls py_isdecimal), Opt (Lit CHR '')''),
            Opt (Cls (any_of ''-.'')), between 3 4 (Cls py_isdecimal),
            Opt (Cls (any_of ''-.'')), between 3 4 (Cls py_isdecimal)],
      seqs [Lit CHR ''('', times 3 (Cls py_isdecimal), Lit CHR '')'',
            Opt (Cls py_isspace), times 3 (Cls py_isdecimal), Lit CHR ''-'',
            times 4 (Cls py_isdecimal)]]"

definition linkedin_pattern :: regex where
  "linkedin_pattern =
     seqs [lits ''linkedin'', Lit CHR ''.'', lits ''com/in/'',
           Grp 1 (Plus (Cls (\<lambda>c. ascii_letter c \<or> py_isdecimal c \<or> c = CHR ''-'')))]"

definition location_pattern :: regex where
  "location_pattern =
     seqs [WordB,
           Grp 1 (Plus (Cls (\<lambda>c. ascii_letter c \<or> py_isspace c))),
           Lit CHR '','',
           Star (Cls py_isspace),
           Grp 2 (Seq (times 2 (Cls (\<lambda>c. ascii_letter c \<or> py_isspace c)))
                      (Star (Cls (\<lambda>c. ascii_letter c \<or> py_isspace c)))),
           WordB]"

definition extract_contact_info :: "string \<Rightarrow> contact" where
  "extract_contact_info text =
     (let emails_found = map whole (findall False email_pattern text);
          phones_found = concat (map (\<lambda>pattern. map whole (findall False pattern text))
                                   phone_patterns);
          linkedin_matches = map (group 1) (findall True linkedin_pattern text);
          locations = map (\<lambda>m. (group 1 m, group 2 m)) (findall False location_pattern text)
      in \<lparr>emails = py_list_set emails_found,
          phones = py_list_set phones_found,
          linkedin = (case linkedin_matches of [] \<Rightarrow> None | m # ms \<Rightarrow> Some m),
          location = (case locations of [] \<Rightarrow> None | l # ls \<Rightarrow> Some l)\<rparr>)"

section \<open>Skills\<close>

record skill_entry =
  skill :: string
  mentions :: nat
  category :: string

record skills_result =
  technical_skills :: "skill_entry list"
  total_skills_found :: nat

definition categorize_skill :: "string \<Rightarrow> string" where
  "categorize_skill s =
     (if py_lower s \<in> set [''python'', ''java'', ''javascript'', ''c++'', ''php'', ''ruby'']
        then ''programming_language''
      else if py_lower s \<in> set [''react'', ''angular'', ''django'', ''flask'', ''spring'']
        then ''framework''
      else if py_lower s \<in> set [''mysql'', ''mongodb'', ''postgresql'', ''redis'']
        then ''database''
      else if py_lower s \<in> set [''aws'', ''azure'', ''gcp'', ''docker'', ''kubernetes'']
        then ''cloud_devops''
      else ''other'')"

definition skill_entry_of :: "string \<Rightarrow> string \<Rightarrow> skill_entry" where
  \<comment> \<open>the entry appended for a keyword found in the lower-cased text\<close>
  "skill_entry_of text_lower s =
     \<lparr>skill = py_title s,
      mentions = py_count text_lower (py_lower s),
      category = categorize_skill s\<rparr>"

fun collect_skills :: "string \<Rightarrow> string list \<Rightarrow> skill_entry list" where
  \<comment> \<open>the loop over the keyword list; \<open>text_lower\<close> is the lower-cased text\<close>
  "collect_skills text_lower [] = []"
| "collect_skills text_lower (s # rest) =
     (if contains text_lower (py_lower s)
      then skill_entry_of text_lower s # collect_skills text_lower rest
      else collect_skills text_lower rest)"

definition sort_by_mentions_reverse :: "skill_entry list \<Rightarrow> skill_entry list" where
  \<comment> \<open>\<open>list.sort(key=mentions, reverse=True)\<close>: Python's sort is stable, also with
      \<open>reverse=True\<close>, so the result is the stable sort by descending key\<close>
  "sort_by_mentions_reverse xs = sort_key (\<lambda>x. - int (mentions x)) xs"

definition extract_skills :: "string \<Rightarrow> skills_result" where
  "extract_skills text =
     (let text_lower = py_lower text;
          found_skills = sort_by_mentions_reverse (collect_skills text_lower skills_keywords)
      in \<lparr>technical_skills = take 20 found_skills,
          total_skills_found = length found_skills\<rparr>)"

section \<open>Education\<close>

record degree_entry =
  degree :: string
  field :: string
  entry_type :: string

record education_result =
  degrees :: "degree_entry list"
  institutions :: "string list"
  graduation_years :: "string list"

definition degree_pattern :: regex where
  "degree_pattern =
     seqs [Grp 1 (alts (map lits [''bachelor'', ''master'', ''phd'', ''doctorate'', ''diploma'',
                               ''b.tech'', ''m.tech'', ''b.sc'', ''m.sc'', ''mba'', ''bca'',
                               ''mca''])),
           LazyStar (Cls (\<lambda>c. c \<noteq> CHR 0x0A)),
           Alt (lits ''in'') (lits ''of''),
           Plus (Cls py_isspace),
           Grp 2 (Plus (Cls (\<lambda>c. py_isword c \<or> py_isspace c)))]"

definition year_pattern :: regex where
  \<comment> \<open>\<open>\b(19|20)\d{2}\b\<close>: the only group is the pair of leading digits\<close>
  "year_pattern =
     seqs [WordB, Grp 1 (Alt (lits ''19'') (lits ''20'')), times 2 (Cls py_isdecimal), WordB]"

fun remove_4digits :: "string \<Rightarrow> string" where
  \<comment> \<open>\<open>re.sub(r'\d{4}', '', line)\<close>\<close>
  "remove_4digits (a # b # c # d # rest) =
     (if py_isdecimal a \<and> py_isdecimal b \<and> py_isdecimal c \<and> py_isdecimal d
      then remove_4digits rest
      else a # remove_4digits (b # c # d # rest))"
| "remove_4digits s = s"

fun collect_universities :: "string list \<Rightarrow> string list" where
  "collect_universities [] = []"
| "collect_universities (line # rest) =
     (if list_ex (\<lambda>keyword. contains (py_lower line) keyword)
           [''university'', ''college'', ''institute'', ''school'']
      then (let clean_line = py_strip (remove_4digits line) in
            if 5 < length clean_line then clean_line # collect_universities rest
            else collect_universities rest)
      else collect_universities rest)"

definition extract_education :: "string \<Rightarrow> education_result" where
  "extract_education text =
     (let degree_matches = findall True degree_pattern text;
          education_info =
            map (\<lambda>m. \<lparr>degree = py_title (group 1 m),
                       field = py_title (py_strip (group 2 m)),
                       entry_type = ''degree''\<rparr>) degree_matches;
          years = map (group 1) (findall False year_pattern text);
          universities = collect_universities (split_on (CHR 0x0A) text)
      in \<lparr>degrees = education_info,
          institutions = take 3 universities,
          graduation_years = py_list_set years\<rparr>)"

section \<open>Exceptions\<close>

text \<open>
  A function that can raise returns a value of a sum type, the exception on the left.
  \<open>DecoderError\<close> stands for whatever a decoding library raises on a document it
  cannot read.
\<close>

datatype exn = ValueError string | ImportError string | DecoderError string

fun message :: "exn \<Rightarrow> string" where
  "message (ValueError m) = m"
| "message (ImportError m) = m"
| "message (DecoderError m) = m"

section \<open>Experience\<close>

record experience_result =
  total_years_experience :: "int option"
  job_titles :: "string list"
  companies :: "string list"
  experience_level :: string

definition exp_pattern :: regex where
  \<comment> \<open>\<open>(\d+)\+?\s*(years?|yrs?)\s*of\s*experience\<close>\<close>
  "exp_pattern =
     seqs [Grp 1 (Plus (Cls py_isdecimal)),
           Opt (Lit CHR ''+''),
           Star (Cls py_isspace),
           Grp 2 (Alt (Seq (lits ''year'') (Opt (Lit CHR ''s'')))
                      (Seq (lits ''yr'') (Opt (Lit CHR ''s'')))),
           Star (Cls py_isspace),
           lits ''of'',
           Star (Cls py_isspace),
           lits ''experience'']"

definition exp_matches :: "string \<Rightarrow> (string \<times> string) list" where
  \<comment> \<open>\<open>re.findall(exp_pattern, text, re.IGNORECASE)\<close>: one pair of groups per match\<close>
  "exp_matches text = map (\<lambda>m. (group 1 m, group 2 m)) (findall True exp_pattern text)"

function py_str_nat :: "nat \<Rightarrow> string" where
  \<comment> \<open>\<open>str(n)\<close> for a natural number: its decimal digits\<close>
  "py_str_nat n =
     (if n < 10 then [char_of (48 + n)]
      else py_str_nat (n div 10) @ [char_of (48 + n mod 10)])"
  by pat_completeness auto
termination
  by (relation "measure id") auto

declare py_str_nat.simps [simp del]

definition digits_value :: "string \<Rightarrow> int" where
  \<comment> \<open>the number that a string of the digits 0 to 9 denotes\<close>
  "digits_value s = foldl (\<lambda>a c. 10 * a + (int (of_char c) - 48)) 0 s"

definition py_int :: "string \<Rightarrow> exn + int" where
  \<comment> \<open>\<open>int(s)\<close> for a non-empty string of the digits 0 to 9, which group 1 of the
      pattern always is. CPython (3.11, and the security releases of 3.7 to 3.10) refuses
      a string of more than 4300 digits, leading zeros included, with a ValueError.\<close>
  "py_int s =
     (if 4300 < length s
      then Inl (ValueError
             (''Exceeds the limit (4300 digits) for integer string conversion: value has ''
              @ py_str_nat (length s)
              @ '' digits; use sys.set_int_max_str_digits() to increase the limit''))
      else Inr (digits_value s))"

fun py_int_all :: "string list \<Rightarrow> exn + int list" where
  \<comment> \<open>the list comprehension \<open>[int(match[0]) for match in exp_matches]\<close>: the first
      conversion that raises ends it\<close>
  "py_int_all [] = Inr []"
| "py_int_all (s # ss) =
     (case py_int s of
        Inl e \<Rightarrow> Inl e
      | Inr y \<Rightarrow> (case py_int_all ss of Inl e \<Rightarrow> Inl e | Inr ys \<Rightarrow> Inr (y # ys)))"

definition total_experience :: "string \<Rightarrow> exn + int option" where
  \<comment> \<open>\<open>max(years)\<close> keeps the largest value seen so far; None when nothing matched\<close>
  "total_experience text =
     (case py_int_all (map fst (exp_matches text)) of
        Inl e \<Rightarrow> Inl e
      | Inr [] \<Rightarrow> Inr None
      | Inr (y # ys) \<Rightarrow> Inr (Some (fold max ys y)))"

definition title_pattern :: "string \<Rightarrow> regex" where
  \<comment> \<open>The pattern is built by an f-string that is not a raw string: its \<open>\b\<close> is the
      backspace character U+0008, while \<open>\s\<close> and \<open>\w\<close> reach \<open>re\<close> as written.\<close>
  "title_pattern keyword =
     seqs [Lit (CHR 0x08),
           lits keyword,
           Plus (Cls py_isspace),
           Star (Grp 1 (Seq (Plus (Cls py_isword)) (Star (Cls py_isspace)))),
           alts (map lits [''engineer'', ''developer'', ''manager'', ''analyst'',
                           ''designer'', ''specialist''])]"

definition titles_for :: "string \<Rightarrow> string \<Rightarrow> string list" where
  \<comment> \<open>the inner loop: one title per match of the keyword's pattern\<close>
  "titles_for text keyword =
     map (\<lambda>m. py_title (keyword @ '' '' @ py_strip (group 1 m)))
       (findall True (title_pattern keyword) text)"

definition all_job_titles :: "string \<Rightarrow> string list" where
  "all_job_titles text = concat (map (titles_for text) experience_keywords)"

definition company_pattern :: regex where
  "company_pattern =
     seqs [WordB, lits ''at'', Plus (Cls py_isspace),
           Grp 1 (seqs [Cls (in_range 65 90),
                        Plus (Cls (\<lambda>c. py_isword c \<or> py_isspace c \<or> any_of ''&.,'' c)),
                        Opt (alts (map lits [''Inc'', ''LLC'', ''Corp'', ''Ltd'', ''Company'',
                                             ''Co.'']))])]"

definition determine_experience_level :: "int option \<Rightarrow> string" where
  "determine_experience_level years =
     (case years of
        None \<Rightarrow> ''unknown''
      | Some y \<Rightarrow>
          if y < 2 then ''entry_level''
          else if y < 5 then ''junior''
          else if y < 10 then ''mid_level''
          else ''senior'')"

definition extract_experience :: "string \<Rightarrow> exn + experience_result" where
  \<comment> \<open>nothing in the function catches the ValueError of \<open>int\<close>\<close>
  "extract_experience text =
     (case total_experience text of
        Inl e \<Rightarrow> Inl e
      | Inr total_found \<Rightarrow>
          (let company_matches = map (group 1) (findall False company_pattern text)
           in Inr \<lparr>total_years_experience = total_found,
                   job_titles = take 5 (py_list_set (all_job_titles text)),
                   companies = take 5 (py_list_set company_matches),
                   experience_level = determine_experience_level total_found\<rparr>))"

section \<open>Summary\<close>

record summary_result =
  summary :: "string option"
  source :: string

definition summary_keyword_line :: "string \<Rightarrow> bool" where
  \<comment> \<open>\<open>any(keyword in line.lower() for keyword in summary_keywords)\<close>\<close>
  "summary_keyword_line line \<longleftrightarrow>
     list_ex (\<lambda>keyword. contains (py_lower line) keyword)
       [''summary'', ''objective'', ''profile'', ''about'']"

fun find_summary :: "string list \<Rightarrow> string option" where
  \<comment> \<open>the loop over the lines: at the first line with a keyword, \<open>lines[i+1:i+4]\<close> is
      joined and stripped\<close>
  "find_summary [] = None"
| "find_summary (line # rest) =
     (if summary_keyword_line line
      then Some (py_strip (join [CHR 0x0A] (take 3 rest)))
      else find_summary rest)"

definition truthy :: "string option \<Rightarrow> bool" where
  \<comment> \<open>the truth value of an optional string: None and the empty string are false\<close>
  "truthy v \<longleftrightarrow> (case v of None \<Rightarrow> False | Some s \<Rightarrow> s \<noteq> [])"

definition extract_summary :: "string \<Rightarrow> summary_result" where
  "extract_summary text =
     (let summary_text = find_summary (split_on (CHR 0x0A) text)
      in \<lparr>summary = summary_text,
          source = (if truthy summary_text then ''extracted'' else ''not_found'')\<rparr>)"

section \<open>The assembler\<close>

record metadata =
  filename :: string
  file_type :: string
  parsed_at :: string
  text_length :: nat
  parser_version :: string

record resume_record =
  personal_info :: personal
  contact_info :: contact
  skills :: skills_result
  education :: education_result
  experience :: experience_result
  summary_info :: summary_result
  raw_text :: string
  metadata :: "metadata option"

text \<open>
  The uploaded file, and what the parser takes from its surroundings: whether the two
  decoding libraries were imported, what they return on a byte buffer (the page texts of
  a PDF, a page without text being None; the paragraph texts of a Word document; or the
  exception they raise), the entity recognizer, and the clock.
\<close>

record upload_file =
  upload_filename :: string
  content_type :: string
  content :: string

record environment =
  PDF_AVAILABLE :: bool
  DOCX_AVAILABLE :: bool
  pdf_pages :: "string \<Rightarrow> exn + string option list"
  docx_paragraphs :: "string \<Rightarrow> exn + string list"
  nlp :: "(string \<Rightarrow> (string \<times> string) list) option"
  utcnow :: string

text \<open>
  The effects of a run are recorded in the order in which they happen: reading the
  uploaded file, handing its bytes to a decoder, and writing an error to the log.
\<close>

datatype event = FileRead | PdfDecode | DocxDecode | LogError string

definition extract_text_from_pdf :: "environment \<Rightarrow> upload_file \<Rightarrow> (exn + string) \<times> event list" where
  "extract_text_from_pdf env file =
     (if \<not> PDF_AVAILABLE env
      then (Inl (ImportError ''pdfplumber not available. Install with: pip install pdfplumber''), [])
      else (case pdf_pages env (content file) of
              Inl e \<Rightarrow>
                (Inl e, [FileRead, PdfDecode,
                         LogError (''Error extracting text from PDF: '' @ message e)])
            | Inr pages \<Rightarrow>
                (Inr (py_strip (concat (map (\<lambda>page_text.
                        case page_text of
                          None \<Rightarrow> []
                        | Some t \<Rightarrow> if t = [] then [] else t @ [CHR 0x0A]) pages))),
                 [FileRead, PdfDecode])))"

definition extract_text_from_docx :: "environment \<Rightarrow> upload_file \<Rightarrow> (exn + string) \<times> event list" where
  "extract_text_from_docx env file =
     (if \<not> DOCX_AVAILABLE env
      then (Inl (ImportError ''python-docx not available. Install with: pip install python-docx''), [])
      else (case docx_paragraphs env (content file) of
              Inl e \<Rightarrow>
                (Inl e, [FileRead, DocxDecode,
                         LogError (''Error extracting text from DOCX: '' @ message e)])
            | Inr paragraphs \<Rightarrow>
                (Inr (py_strip (concat (map (\<lambda>paragraph. paragraph @ [CHR 0x0A]) paragraphs))),
                 [FileRead, DocxDecode])))"

definition parse_text :: "environment \<Rightarrow> string \<Rightarrow> exn + resume_record" where
  \<comment> \<open>the experience extractor is the only one that can raise\<close>
  "parse_text env text =
     (let cleaned_text = clean_text text
      in case extract_experience cleaned_text of
           Inl e \<Rightarrow> Inl e
         | Inr experience_found \<Rightarrow>
             Inr \<lparr>personal_info = extract_personal_info (nlp env) cleaned_text,
                  contact_info = extract_contact_info cleaned_text,
                  skills = extract_skills cleaned_text,
                  education = extract_education cleaned_text,
                  experience = experience_found,
                  summary_info = extract_summary cleaned_text,
                  raw_text = (if 1000 < length text then take 1000 text @ ''...'' else text),
                  metadata = None\<rparr>)"

definition extract_text :: "environment \<Rightarrow> upload_file \<Rightarrow> (exn + string) \<times> event list" where
  \<comment> \<open>the dispatch on the declared type at the head of \<open>parse_resume_file\<close>\<close>
  "extract_text env file =
     (if content_type file = ''application/pdf'' then extract_text_from_pdf env file
      else if content_type file \<in> set
                [''application/vnd.openxmlformats-officedocument.wordprocessingml.document'',
                 ''application/msword'']
        then extract_text_from_docx env file
      else (Inl (ValueError (''Unsupported file type: '' @ content_type file)), []))"

definition parse_resume_file :: "environment \<Rightarrow> upload_file \<Rightarrow> (exn + resume_record) \<times> event list" where
  \<comment> \<open>the handler of the function logs the exception and raises it again\<close>
  "parse_resume_file env file =
     (case extract_text env file of
        (Inl e, events) \<Rightarrow>
          (Inl e, events @ [LogError (''Error parsing resume file: '' @ message e)])
      | (Inr text, events) \<Rightarrow>
          (case parse_text env text of
             Inl e \<Rightarrow>
               (Inl e, events @ [LogError (''Error parsing resume file: '' @ message e)])
           | Inr parsed_data \<Rightarrow>
               (Inr (parsed_data
                      \<lparr>metadata := Some \<lparr>filename = upload_filename file,
                                          file_type = content_type file,
                                          parsed_at = utcnow env,
                                          text_length = length text,
                                          parser_version = ''1.0.0''\<rparr>\<rparr>),
                events)))"

section \<open>The specification's wording, and notions used in the proofs\<close>

text \<open>
  A text is in normal form for \<open>sub_ws\<close> when its only whitespace characters are single
  spaces, none next to another.
\<close>

fun ws_norm :: "string \<Rightarrow> bool" where
  "ws_norm [] = True"
| "ws_norm (c # cs) =
     ((\<not> py_isspace c \<or> (c = CHR '' '' \<and> (cs = [] \<or> \<not> py_isspace (hd cs)))) \<and> ws_norm cs)"

text \<open>
  The acceptance rule for a name as the specification words it: (a) the line contains none
  of the four words, whatever the case; (b) it splits into two to four tokens separated by
  whitespace, each alphabetic once its periods are removed: a token has a character that
  is not a period, and each such character is alphabetic; (c) some token starts with an
  upper-case character. The name is the first such line among the first five.
\<close>

definition alphabetic_but_periods :: "string \<Rightarrow> bool" where
  "alphabetic_but_periods t \<longleftrightarrow>
     (\<exists>c \<in> set t. c \<noteq> CHR ''.'') \<and> (\<forall>c \<in> set t. c = CHR ''.'' \<or> py_isalpha c)"

definition name_spec_ok :: "string \<Rightarrow> bool" where
  "name_spec_ok line \<longleftrightarrow>
     \<not> (\<exists>w \<in> set [''email'', ''phone'', ''address'', ''linkedin'']. contains (py_lower line) w)
     \<and> 2 \<le> length (py_split line) \<and> length (py_split line) \<le> 4
     \<and> (\<forall>t \<in> set (py_split line). alphabetic_but_periods t)
     \<and> (\<exists>t \<in> set (py_split line). t \<noteq> [] \<and> py_isupper (hd t))"

definition name_spec :: "string \<Rightarrow> string option" where
  "name_spec text = List.find name_spec_ok (take 5 (split_on (CHR 0x0A) text))"


section \<open>Properties of the text normalizer\<close>

lemma hd_sub_ws: "cs \<noteq> [] \<Longrightarrow> \<not> py_isspace (hd cs) \<Longrightarrow> hd (sub_ws cs) = hd cs"
  by (cases cs) auto

lemma sub_ws_Nil_iff: "sub_ws cs = [] \<longleftrightarrow> cs = []"
  by (cases cs) auto

lemma ws_norm_sub_ws: "ws_norm (sub_ws s)"
proof (induction s rule: sub_ws.induct)
  case 1
  show ?case by simp
next
  case (2 c cs)
  show ?case
  proof (cases "py_isspace c")
    case True
    let ?r = "dropWhile py_isspace cs"
    have "?r = [] \<or> \<not> py_isspace (hd ?r)"
      using hd_dropWhile[of py_isspace cs] by blast
    then have "sub_ws ?r = [] \<or> \<not> py_isspace (hd (sub_ws ?r))"
      using hd_sub_ws[of ?r] sub_ws_Nil_iff[of ?r] by metis
    with True 2 show ?thesis by simp
  next
    case False
    with 2 show ?thesis by simp
  qed
qed

lemma sub_ws_fixed: "ws_norm t \<Longrightarrow> sub_ws t = t"
proof (induction t rule: sub_ws.induct)
  case 1
  show ?case by simp
next
  case (2 c cs)
  show ?case
  proof (cases "py_isspace c")
    case True
    with 2 have "dropWhile py_isspace cs = cs" by (cases cs) auto
    with True 2 show ?thesis by simp
  next
    case False
    with 2 show ?thesis by simp
  qed
qed

lemma sub_ws_spaces: "c \<in> set (sub_ws s) \<Longrightarrow> py_isspace c \<Longrightarrow> c = CHR '' ''"
proof (induction s rule: sub_ws.induct)
  case 1
  then show ?case by simp
next
  case (2 d ds)
  then show ?case by (auto split: if_splits)
qed

lemma newline_isspace: "py_isspace (CHR 0x0A)"
  by (simp add: py_isspace_def)

lemma no_newline_sub_ws: "CHR 0x0A \<notin> set (sub_ws s)"
  using sub_ws_spaces[of "CHR 0x0A" s] newline_isspace by auto

lemma sub_nl_fixed: "CHR 0x0A \<notin> set t \<Longrightarrow> sub_nl t = t"
  by (induction t) auto

lemma set_py_strip: "set (py_strip t) \<subseteq> set t"
proof
  fix x assume "x \<in> set (py_strip t)"
  then have "x \<in> set (dropWhile py_isspace (rev (dropWhile py_isspace t)))"
    by (simp add: py_strip_def py_rstrip_def py_lstrip_def)
  then have "x \<in> set (rev (dropWhile py_isspace t))" by (rule set_dropWhileD)
  then have "x \<in> set (dropWhile py_isspace t)" by simp
  then show "x \<in> set t" by (rule set_dropWhileD)
qed

lemma ws_norm_append: "ws_norm (xs @ ys) \<Longrightarrow> ws_norm xs \<and> ws_norm ys"
  by (induction xs) (auto simp: hd_append split: if_splits)

lemma ws_norm_dropWhile: "ws_norm t \<Longrightarrow> ws_norm (dropWhile P t)"
  using ws_norm_append[of "takeWhile P t" "dropWhile P t"] by simp

lemma py_rstrip_prefix: "\<exists>zs. t = py_rstrip t @ zs"
proof -
  have "rev t = takeWhile py_isspace (rev t) @ dropWhile py_isspace (rev t)" by simp
  then have "t = rev (dropWhile py_isspace (rev t)) @ rev (takeWhile py_isspace (rev t))"
    by (metis rev_append rev_rev_ident)
  then show ?thesis unfolding py_rstrip_def by blast
qed

lemma ws_norm_py_strip:
  assumes "ws_norm t"
  shows "ws_norm (py_strip t)"
proof -
  from assms have b: "ws_norm (py_lstrip t)"
    unfolding py_lstrip_def by (rule ws_norm_dropWhile)
  obtain zs where "py_lstrip t = py_rstrip (py_lstrip t) @ zs"
    using py_rstrip_prefix by blast
  with b show ?thesis unfolding py_strip_def using ws_norm_append by metis
qed

text \<open>A stripped text is empty, or neither starts nor ends with whitespace.\<close>

lemma py_strip_ends:
  "py_strip t = [] \<or> (\<not> py_isspace (hd (py_strip t)) \<and> \<not> py_isspace (last (py_strip t)))"
proof (cases "py_strip t = []")
  case True
  then show ?thesis by simp
next
  case False
  let ?l = "py_lstrip t"
  let ?d = "dropWhile py_isspace (rev ?l)"
  have s: "py_strip t = rev ?d" by (simp add: py_strip_def py_rstrip_def)
  with False have ne: "?d \<noteq> []" by simp
  then have "\<not> py_isspace (hd ?d)" using hd_dropWhile by blast
  then have l: "\<not> py_isspace (last (py_strip t))" using s ne by (simp add: last_rev)
  have lne: "?l \<noteq> []" using ne by auto
  then have h: "\<not> py_isspace (hd ?l)" unfolding py_lstrip_def using hd_dropWhile by blast
  obtain zs where z: "?l = py_strip t @ zs"
    using py_rstrip_prefix[of ?l] by (auto simp: py_strip_def)
  with False have "hd ?l = hd (py_strip t)" by (metis hd_append2)
  with h l show ?thesis by simp
qed

lemma py_strip_fixed:
  assumes "u = [] \<or> (\<not> py_isspace (hd u) \<and> \<not> py_isspace (last u))"
  shows "py_strip u = u"
proof (cases "u = []")
  case True
  then show ?thesis by (simp add: py_strip_def py_rstrip_def py_lstrip_def)
next
  case False
  with assms have h: "\<not> py_isspace (hd u)" and l: "\<not> py_isspace (last u)" by auto
  from False h have 1: "py_lstrip u = u" unfolding py_lstrip_def by (cases u) auto
  from False l have "dropWhile py_isspace (rev u) = rev u"
    by (cases "rev u") (auto simp: last_rev hd_rev)
  then show ?thesis by (simp add: py_strip_def py_rstrip_def 1)
qed

lemma py_strip_idem: "py_strip (py_strip t) = py_strip t"
  using py_strip_fixed py_strip_ends by blast

lemma clean_text_eq: "clean_text s = py_strip (sub_ws s)"
  by (simp add: clean_text_def sub_nl_fixed no_newline_sub_ws)

lemma no_newline_clean_text: "CHR 0x0A \<notin> set (clean_text s)"
  using set_py_strip[of "sub_ws s"] no_newline_sub_ws[of s] by (auto simp: clean_text_eq)

lemma ws_norm_clean_text: "ws_norm (clean_text s)"
  by (simp add: clean_text_eq ws_norm_py_strip ws_norm_sub_ws)

lemma py_strip_clean_text: "py_strip (clean_text s) = clean_text s"
  by (simp add: clean_text_eq py_strip_idem)

lemma split_on_none: "sep \<notin> set t \<Longrightarrow> split_on sep t = [t]"
  by (induction t) auto

lemma lines_clean_text: "split_on (CHR 0x0A) (clean_text s) = [clean_text s]"
  by (rule split_on_none) (rule no_newline_clean_text)

text \<open>
  Claim C3. The normalizer is idempotent: normalizing a normalized text changes nothing,
  for every string; and the empty string is normalized to the empty string.
\<close>

theorem clean_text_idempotent:
  "clean_text (clean_text s) = clean_text s \<and> clean_text [] = []"
proof
  have "sub_ws (clean_text s) = clean_text s"
    using ws_norm_clean_text by (rule sub_ws_fixed)
  then have "clean_text (clean_text s) = py_strip (clean_text s)"
    by (simp add: clean_text_eq)
  then show "clean_text (clean_text s) = clean_text s"
    by (simp add: py_strip_clean_text)
next
  show "clean_text [] = []"
    by (simp add: clean_text_def py_strip_def py_rstrip_def py_lstrip_def)
qed

text \<open>
  Claim C10. The normalized text never contains a newline, since the first substitution
  has already turned every newline into a space; splitting it on newlines gives exactly
  one line, the text itself. So the three extractors that work line by line (the name,
  the institutions, the summary) each see the whole normalized text as their only line.
\<close>

theorem normalized_text_is_one_line:
  "CHR 0x0A \<notin> set (clean_text s)
   \<and> split_on (CHR 0x0A) (clean_text s) = [clean_text s]
   \<and> length (split_on (CHR 0x0A) (clean_text s)) = 1
   \<and> name (extract_personal_info None (clean_text s)) = scan_name [clean_text s]
   \<and> institutions (extract_education (clean_text s))
       = take 3 (collect_universities [clean_text s])
   \<and> summary (extract_summary (clean_text s)) = find_summary [clean_text s]"
  by (simp add: no_newline_clean_text lines_clean_text extract_personal_info_def
      extract_education_def extract_summary_def Let_def del: scan_name.simps
      collect_universities.simps find_summary.simps)

section \<open>Experience level and years of experience\<close>

lemma extract_experience_Inr:
  "extract_experience text = Inr r \<Longrightarrow>
     total_experience text = Inr (total_years_experience r)
     \<and> experience_level r = determine_experience_level (total_years_experience r)
     \<and> job_titles r = take 5 (py_list_set (all_job_titles text))"
  by (auto simp: extract_experience_def Let_def split: sum.splits)

lemma extract_experience_returns:
  "total_experience text = Inr t \<Longrightarrow>
     \<exists>r. extract_experience text = Inr r \<and> total_years_experience r = t"
  by (simp add: extract_experience_def Let_def)

text \<open>
  Claim C6. The experience level is a function of the total years alone, with these
  thresholds: no value gives unknown, fewer than 2 years entry\_level, from 2 to fewer
  than 5 junior, from 5 to fewer than 10 mid\_level, and 10 or more senior, for every
  integer number of years. The level in every result of the extractor is this function
  of the total in that result, and the extractor returns a result whenever the total is
  computed.
\<close>

theorem experience_level_thresholds:
  "determine_experience_level None = ''unknown''
   \<and> (\<forall>y. y < 2 \<longrightarrow> determine_experience_level (Some y) = ''entry_level'')
   \<and> (\<forall>y. 2 \<le> y \<and> y < 5 \<longrightarrow> determine_experience_level (Some y) = ''junior'')
   \<and> (\<forall>y. 5 \<le> y \<and> y < 10 \<longrightarrow> determine_experience_level (Some y) = ''mid_level'')
   \<and> (\<forall>y. 10 \<le> y \<longrightarrow> determine_experience_level (Some y) = ''senior'')
   \<and> (\<forall>r. extract_experience text = Inr r
         \<longrightarrow> experience_level r = determine_experience_level (total_years_experience r))
   \<and> (\<forall>t. total_experience text = Inr t
         \<longrightarrow> (\<exists>r. extract_experience text = Inr r \<and> total_years_experience r = t
                  \<and> experience_level r = determine_experience_level t))"
  using extract_experience_Inr[of "text"]
  by (simp add: determine_experience_level_def extract_experience_def Let_def)

lemma total_experience_three: "total_experience ''3 years of experience'' = Inr (Some 3)"
  by code_simp

theorem experience_level_thresholds_witness:
  "determine_experience_level (Some 1) = ''entry_level''
   \<and> determine_experience_level (Some 4) = ''junior''
   \<and> determine_experience_level (Some 9) = ''mid_level''
   \<and> determine_experience_level (Some 10) = ''senior''
   \<and> determine_experience_level None = ''unknown''
   \<and> (\<exists>r. extract_experience ''3 years of experience'' = Inr r
         \<and> total_years_experience r = Some 3 \<and> experience_level r = ''junior'')"
proof -
  note t = experience_level_thresholds[of "''3 years of experience''"]
  obtain r where r: "extract_experience ''3 years of experience'' = Inr r"
      and y: "total_years_experience r = Some 3"
    using extract_experience_returns[OF total_experience_three] by blast
  from t r have "experience_level r = determine_experience_level (total_years_experience r)"
    by blast
  moreover from t have "determine_experience_level (Some 3) = ''junior''" by simp
  ultimately have "experience_level r = ''junior''" using y by simp
  with r y have "\<exists>r. extract_experience ''3 years of experience'' = Inr r
         \<and> total_years_experience r = Some 3 \<and> experience_level r = ''junior''" by blast
  with t show ?thesis by simp
qed


























section \<open>Skills\<close>

lemma collect_skills_eq:
  "collect_skills t ks = map (skill_entry_of t) (filter (\<lambda>s. contains t (py_lower s)) ks)"
  by (induction ks) auto

lemma mentions_skill_entry_of [simp]:
  "mentions (skill_entry_of t s) = py_count t (py_lower s)"
  by (simp add: skill_entry_of_def)

lemma sorted_by_mentions:
  "sorted_wrt (\<lambda>a b. mentions b \<le> mentions a) (sort_by_mentions_reverse xs)"
proof -
  have "sorted (map (\<lambda>x. - int (mentions x)) (sort_key (\<lambda>x. - int (mentions x)) xs))"
    by (rule sorted_sort_key)
  then show ?thesis
    by (simp add: sort_by_mentions_reverse_def sorted_map)
qed

lemma sort_by_mentions_stable:
  "filter (\<lambda>x. mentions x = k) (sort_by_mentions_reverse xs) = filter (\<lambda>x. mentions x = k) xs"
  using sort_key_stable[of "\<lambda>x. - int (mentions x)" "- int k" xs]
  by (simp add: sort_by_mentions_reverse_def)

lemma sorted_wrt_take_any: "sorted_wrt R xs \<Longrightarrow> sorted_wrt R (take n xs)"
  using sorted_wrt_append[of R "take n xs" "drop n xs"] by simp

text \<open>
  Claim C4. For every text, the technical skills are sorted by descending mention count,
  there are at most 20 of them, and the total reported is at least their number: it is
  the number of keywords found in the text, before the list is cut. Entries with the
  same count \<open>k\<close> stand in the order of the keyword list: they are a prefix of the
  entries of the keywords with that count, taken in keyword-list order.
\<close>

theorem skills_sorted_stable_capped:
  "sorted_wrt (\<lambda>a b. mentions b \<le> mentions a) (technical_skills (extract_skills text))
   \<and> length (technical_skills (extract_skills text)) \<le> 20
   \<and> length (technical_skills (extract_skills text)) \<le> total_skills_found (extract_skills text)
   \<and> total_skills_found (extract_skills text)
       = length (filter (\<lambda>s. contains (py_lower text) (py_lower s)) skills_keywords)
   \<and> prefix (filter (\<lambda>x. mentions x = k) (technical_skills (extract_skills text)))
        (map (skill_entry_of (py_lower text))
           (filter (\<lambda>s. contains (py_lower text) (py_lower s)
                        \<and> py_count (py_lower text) (py_lower s) = k) skills_keywords))"
proof -
  let ?found = "collect_skills (py_lower text) skills_keywords"
  let ?sorted = "sort_by_mentions_reverse ?found"
  have tech: "technical_skills (extract_skills text) = take 20 ?sorted"
    by (simp add: extract_skills_def Let_def)
  have total: "total_skills_found (extract_skills text) = length ?found"
    by (simp add: extract_skills_def Let_def sort_by_mentions_reverse_def)
  have 1: "sorted_wrt (\<lambda>a b. mentions b \<le> mentions a) (take 20 ?sorted)"
    by (rule sorted_wrt_take_any) (rule sorted_by_mentions)
  have 2: "length (take 20 ?sorted) \<le> 20" by simp
  have 3: "length (take 20 ?sorted) \<le> length ?found"
    by (simp add: sort_by_mentions_reverse_def)
  have 4: "length ?found
       = length (filter (\<lambda>s. contains (py_lower text) (py_lower s)) skills_keywords)"
    by (simp add: collect_skills_eq)
  have "prefix (filter (\<lambda>x. mentions x = k) (take 20 ?sorted))
          (filter (\<lambda>x. mentions x = k) ?sorted)"
    by (rule filter_mono_prefix) (rule take_is_prefix)
  also have "filter (\<lambda>x. mentions x = k) ?sorted = filter (\<lambda>x. mentions x = k) ?found"
    by (rule sort_by_mentions_stable)
  also have "\<dots> = map (skill_entry_of (py_lower text))
           (filter (\<lambda>s. contains (py_lower text) (py_lower s)
                        \<and> py_count (py_lower text) (py_lower s) = k) skills_keywords)"
    by (simp add: collect_skills_eq filter_map comp_def conj_commute)
  finally have 5: "prefix (filter (\<lambda>x. mentions x = k) (take 20 ?sorted))
        (map (skill_entry_of (py_lower text))
           (filter (\<lambda>s. contains (py_lower text) (py_lower s)
                        \<and> py_count (py_lower text) (py_lower s) = k) skills_keywords))" .
  from 1 2 3 4 5 show ?thesis by (simp only: tech total)
qed

section \<open>The name\<close>

lemma py_split_Nil: "py_split [] = []"
  by (simp add: py_split.simps[of "[]"])

text \<open>No word of \<open>py_split\<close> is empty, so \<open>word[0]\<close> never fails.\<close>

lemma py_split_words_nonempty: "w \<in> set (py_split s) \<Longrightarrow> w \<noteq> []"
proof (induction s rule: py_split.induct)
  case (1 s)
  let ?t = "dropWhile py_isspace s"
  show ?case
  proof (cases "?t = []")
    case True
    with 1(2) show ?thesis by (simp add: py_split.simps[of s])
  next
    case False
    then have "\<not> py_isspace (hd ?t)" using hd_dropWhile by blast
    with False have ne: "takeWhile (\<lambda>c. \<not> py_isspace c) ?t \<noteq> []"
      by (cases ?t) auto
    from 1(2) False have "w = takeWhile (\<lambda>c. \<not> py_isspace c) ?t
        \<or> w \<in> set (py_split (dropWhile (\<lambda>c. \<not> py_isspace c) ?t))"
      by (auto simp: py_split.simps[of s] Let_def split: if_splits)
    then show ?thesis using ne 1(1)[OF refl False] by auto
  qed
qed

lemma first_upper_iff: "first_upper t \<longleftrightarrow> t \<noteq> [] \<and> py_isupper (hd t)"
  by (cases t) (simp_all add: first_upper_def)

lemma alphabetic_but_periods_iff:
  "py_isalpha_str (remove_char CHR ''.'' t) \<longleftrightarrow> alphabetic_but_periods t"
  by (auto simp: py_isalpha_str_def remove_char_def alphabetic_but_periods_def
      list_all_iff filter_empty_conv)

lemma name_line_iff_spec: "name_line line \<longleftrightarrow> name_spec_ok line"
proof (cases "line = []")
  case True
  then show ?thesis by (simp add: name_line_def name_spec_ok_def py_split_Nil)
next
  case False
  then show ?thesis
    by (simp add: name_line_def name_spec_ok_def Let_def list_ex_iff list_all_iff
        first_upper_iff alphabetic_but_periods_iff del: set_simps)
qed

lemma scan_name_eq:
  "scan_name ls = map_option py_strip (List.find (\<lambda>l. name_spec_ok (py_strip l)) ls)"
  by (induction ls) (simp_all add: Let_def name_line_iff_spec)

lemma scan_name_find:
  "(\<And>l. l \<in> set ls \<Longrightarrow> py_strip l = l) \<Longrightarrow> scan_name ls = List.find name_spec_ok ls"
  by (induction ls) (simp_all add: Let_def name_line_iff_spec)

lemma name_without_recognizer:
  "name (extract_personal_info None text) = scan_name (take 5 (split_on (CHR 0x0A) text))"
  by (simp add: extract_personal_info_def Let_def)

lemma name_with_recognizer:
  "scan_name (take 5 (split_on (CHR 0x0A) text)) \<noteq> None \<Longrightarrow>
     name (extract_personal_info nlp_model text) = scan_name (take 5 (split_on (CHR 0x0A) text))"
  by (cases nlp_model) (auto simp: extract_personal_info_def Let_def)

text \<open>
  Claim C8. Without an entity recognizer, on every text, the loop goes through the first
  five lines, strips each, and returns the first stripped line that the acceptance rule
  (a), (b), (c) takes, None when it takes none. So on every text whose first five lines
  carry no whitespace at either end, and on every normalized text, the name is the first
  line, among the first five, that the rule takes. With a recognizer the name is the same
  whenever some line is taken.
\<close>

theorem name_is_first_accepted_line:
  "name (extract_personal_info None text)
     = map_option py_strip
         (List.find (\<lambda>l. name_spec_ok (py_strip l)) (take 5 (split_on (CHR 0x0A) text)))
   \<and> ((\<forall>l \<in> set (take 5 (split_on (CHR 0x0A) text)). py_strip l = l)
        \<longrightarrow> name (extract_personal_info None text) = name_spec text)
   \<and> name (extract_personal_info None (clean_text s)) = name_spec (clean_text s)
   \<and> (name (extract_personal_info None text) \<noteq> None
        \<longrightarrow> name (extract_personal_info nlp_model text)
              = name (extract_personal_info None text))"
proof (intro conjI impI)
  show "name (extract_personal_info None text)
     = map_option py_strip
         (List.find (\<lambda>l. name_spec_ok (py_strip l)) (take 5 (split_on (CHR 0x0A) text)))"
    by (simp only: name_without_recognizer scan_name_eq)
next
  assume "\<forall>l \<in> set (take 5 (split_on (CHR 0x0A) text)). py_strip l = l"
  then have "scan_name (take 5 (split_on (CHR 0x0A) text))
      = List.find name_spec_ok (take 5 (split_on (CHR 0x0A) text))"
    by (intro scan_name_find) blast
  then show "name (extract_personal_info None text) = name_spec text"
    by (simp only: name_without_recognizer name_spec_def)
next
  have "scan_name [clean_text s] = List.find name_spec_ok [clean_text s]"
    by (rule scan_name_find) (simp add: py_strip_clean_text)
  then show "name (extract_personal_info None (clean_text s)) = name_spec (clean_text s)"
    by (simp add: name_without_recognizer name_spec_def lines_clean_text
        del: scan_name.simps find.simps)
next
  assume "name (extract_personal_info None text) \<noteq> None"
  then have "scan_name (take 5 (split_on (CHR 0x0A) text)) \<noteq> None"
    unfolding name_without_recognizer .
  then have "name (extract_personal_info nlp_model text)
      = scan_name (take 5 (split_on (CHR 0x0A) text))"
    by (rule name_with_recognizer)
  then show "name (extract_personal_info nlp_model text) = name (extract_personal_info None text)"
    by (simp only: name_without_recognizer)
qed

lemma name_example_stripped:
  "list_all (\<lambda>l. py_strip l = l)
     (take 5 (split_on (CHR 0x0A) ''Resume\<newline>Email Address Here\<newline>John J. Smith\<newline>Jane Doe''))"
  by code_simp

lemma name_example_spec:
  "name_spec ''Resume\<newline>Email Address Here\<newline>John J. Smith\<newline>Jane Doe'' = Some ''John J. Smith''"
  by code_simp

lemma name_example_sixth_stripped:
  "list_all (\<lambda>l. py_strip l = l)
     (take 5 (split_on (CHR 0x0A) ''a b\<newline>c\<newline>d\<newline>e\<newline>f\<newline>John Smith''))"
  by code_simp

lemma name_example_sixth_spec:
  "name_spec ''a b\<newline>c\<newline>d\<newline>e\<newline>f\<newline>John Smith'' = None"
  by code_simp

lemma name_example_padded:
  "map_option py_strip
     (List.find (\<lambda>l. name_spec_ok (py_strip l))
        (take 5 (split_on (CHR 0x0A) ''cv\<newline>  Dr. Ada Lovelace  \<newline>John Smith'')))
     = Some ''Dr. Ada Lovelace''"
  by code_simp

theorem name_is_first_accepted_line_witness:
  "name (extract_personal_info None
           ''Resume\<newline>Email Address Here\<newline>John J. Smith\<newline>Jane Doe'') = Some ''John J. Smith''
   \<and> name (extract_personal_info (Some (\<lambda>t. [(''Bob Stone'', ''PERSON'')]))
           ''Resume\<newline>Email Address Here\<newline>John J. Smith\<newline>Jane Doe'') = Some ''John J. Smith''
   \<and> name (extract_personal_info None ''a b\<newline>c\<newline>d\<newline>e\<newline>f\<newline>John Smith'') = None
   \<and> name (extract_personal_info None ''cv\<newline>  Dr. Ada Lovelace  \<newline>John Smith'')
        = Some ''Dr. Ada Lovelace''"
proof -
  note a = name_is_first_accepted_line[of
      "''Resume\<newline>Email Address Here\<newline>John J. Smith\<newline>Jane Doe''" "[]"
      "Some (\<lambda>t. [(''Bob Stone'', ''PERSON'')])"]
  note b = name_is_first_accepted_line[of "''a b\<newline>c\<newline>d\<newline>e\<newline>f\<newline>John Smith''" "[]" None]
  note c = name_is_first_accepted_line[of "''cv\<newline>  Dr. Ada Lovelace  \<newline>John Smith''" "[]" None]
  have "name (extract_personal_info None
           ''Resume\<newline>Email Address Here\<newline>John J. Smith\<newline>Jane Doe'')
      = name_spec ''Resume\<newline>Email Address Here\<newline>John J. Smith\<newline>Jane Doe''"
    using a[THEN conjunct2, THEN conjunct1] name_example_stripped[unfolded list_all_iff]
    by (rule mp)
  then have 1: "name (extract_personal_info None
           ''Resume\<newline>Email Address Here\<newline>John J. Smith\<newline>Jane Doe'') = Some ''John J. Smith''"
    by (simp only: name_example_spec)
  then have "name (extract_personal_info None
           ''Resume\<newline>Email Address Here\<newline>John J. Smith\<newline>Jane Doe'') \<noteq> None"
    by (simp only: option.distinct not_False_eq_True)
  with a[THEN conjunct2, THEN conjunct2, THEN conjunct2]
  have "name (extract_personal_info (Some (\<lambda>t. [(''Bob Stone'', ''PERSON'')]))
           ''Resume\<newline>Email Address Here\<newline>John J. Smith\<newline>Jane Doe'')
      = name (extract_personal_info None
           ''Resume\<newline>Email Address Here\<newline>John J. Smith\<newline>Jane Doe'')"
    by (rule mp)
  with 1
  have 2: "name (extract_personal_info (Some (\<lambda>t. [(''Bob Stone'', ''PERSON'')]))
           ''Resume\<newline>Email Address Here\<newline>John J. Smith\<newline>Jane Doe'') = Some ''John J. Smith''"
    by (rule trans[rotated])
  have "name (extract_personal_info None ''a b\<newline>c\<newline>d\<newline>e\<newline>f\<newline>John Smith'')
      = name_spec ''a b\<newline>c\<newline>d\<newline>e\<newline>f\<newline>John Smith''"
    using b[THEN conjunct2, THEN conjunct1] name_example_sixth_stripped[unfolded list_all_iff]
    by (rule mp)
  then have 3: "name (extract_personal_info None ''a b\<newline>c\<newline>d\<newline>e\<newline>f\<newline>John Smith'') = None"
    by (simp only: name_example_sixth_spec)
  from c[THEN conjunct1]
  have 4: "name (extract_personal_info None ''cv\<newline>  Dr. Ada Lovelace  \<newline>John Smith'')
        = Some ''Dr. Ada Lovelace''"
    by (simp only: name_example_padded)
  from 1 2 3 4 show ?thesis by (intro conjI)
qed

section \<open>The summary\<close>

lemma find_summary_first:
  "\<not> list_ex summary_keyword_line pre \<Longrightarrow> summary_keyword_line line \<Longrightarrow>
     find_summary (pre @ line # post) = Some (py_strip (join [CHR 0x0A] (take 3 post)))"
  by (induction pre) auto

lemma find_summary_none: "\<not> list_ex summary_keyword_line ls \<Longrightarrow> find_summary ls = None"
  by (induction ls) auto

text \<open>
  Claim C9, as stated, fails: in the text that consists of the line Summary alone, a line
  holds a keyword, the summary is the empty string (no line follows), and the source tag
  is not\_found, not extracted.
\<close>

theorem summary_source_counterexample:
  "split_on (CHR 0x0A) ''Summary'' = [''Summary'']
   \<and> summary_keyword_line ''Summary''
   \<and> summary (extract_summary ''Summary'') = Some []
   \<and> source (extract_summary ''Summary'') = ''not_found''
   \<and> source (extract_summary ''Summary'') \<noteq> ''extracted''"
  by code_simp

text \<open>
  Claim C9, amended. If some line holds one of the four keywords, the summary is the
  text of the up to three lines after the first such line, joined by newlines and
  stripped, and the source tag is extracted when that text is not empty and not\_found
  when it is empty; if no line holds a keyword, the summary is None and the tag is
  not\_found.
\<close>

theorem summary_after_first_keyword_line:
  "(split_on (CHR 0x0A) text = pre @ line # post
      \<and> \<not> list_ex summary_keyword_line pre \<and> summary_keyword_line line
    \<longrightarrow> summary (extract_summary text) = Some (py_strip (join [CHR 0x0A] (take 3 post)))
        \<and> source (extract_summary text)
            = (if py_strip (join [CHR 0x0A] (take 3 post)) = [] then ''not_found''
               else ''extracted''))
   \<and> (\<not> list_ex summary_keyword_line (split_on (CHR 0x0A) text)
    \<longrightarrow> summary (extract_summary text) = None
        \<and> source (extract_summary text) = ''not_found'')"
  by (simp add: extract_summary_def Let_def truthy_def find_summary_first find_summary_none)

lemma summary_example_lines:
  "split_on (CHR 0x0A) ''Jane Doe\<newline>Professional Summary\<newline>Builds parsers.\<newline>Leads teams.\<newline>Ships.\<newline>Skills''
     = [''Jane Doe''] @ ''Professional Summary'' # [''Builds parsers.'', ''Leads teams.'', ''Ships.'', ''Skills'']"
  by code_simp

lemma summary_example_pre: "\<not> list_ex summary_keyword_line [''Jane Doe'']"
  by code_simp

lemma summary_example_line: "summary_keyword_line ''Professional Summary''"
  by code_simp

lemma summary_example_text:
  "py_strip ''Builds parsers.\<newline>Leads teams.\<newline>Ships.''
     = ''Builds parsers.\<newline>Leads teams.\<newline>Ships.''"
  by code_simp

lemma summary_example_none: "\<not> list_ex summary_keyword_line (split_on (CHR 0x0A) ''Jane Doe'')"
  by code_simp

theorem summary_after_first_keyword_line_witness:
  "summary (extract_summary ''Jane Doe\<newline>Professional Summary\<newline>Builds parsers.\<newline>Leads teams.\<newline>Ships.\<newline>Skills'')
      = Some ''Builds parsers.\<newline>Leads teams.\<newline>Ships.''
   \<and> source (extract_summary ''Jane Doe\<newline>Professional Summary\<newline>Builds parsers.\<newline>Leads teams.\<newline>Ships.\<newline>Skills'')
      = ''extracted''
   \<and> summary (extract_summary ''Jane Doe'') = None
   \<and> source (extract_summary ''Jane Doe'') = ''not_found''"
  using summary_after_first_keyword_line[of
      "''Jane Doe\<newline>Professional Summary\<newline>Builds parsers.\<newline>Leads teams.\<newline>Ships.\<newline>Skills''"
      "[''Jane Doe'']" "''Professional Summary''"
      "[''Builds parsers.'', ''Leads teams.'', ''Ships.'', ''Skills'']"]
    summary_after_first_keyword_line[of "''Jane Doe''" "[]" "[]" "[]"]
    summary_example_lines summary_example_pre summary_example_line summary_example_none
  by (simp add: summary_example_text)

section \<open>Unsupported file types\<close>

text \<open>
  Claim C5. When the declared type of the file is none of the three supported types,
  the text extraction fails with the error for an unsupported type (a ValueError in the
  source), and parsing the file fails with that same error: the handler only writes it
  to the log. The file is not read and no decoder is called.
\<close>

theorem unsupported_type_fails_before_decoding:
  assumes "content_type file \<notin>
     {''application/pdf'',
      ''application/vnd.openxmlformats-officedocument.wordprocessingml.document'',
      ''application/msword''}"
  shows "fst (extract_text env file)
           = Inl (ValueError (''Unsupported file type: '' @ content_type file))
       \<and> fst (parse_resume_file env file)
           = Inl (ValueError (''Unsupported file type: '' @ content_type file))
       \<and> snd (parse_resume_file env file)
           = [LogError (''Error parsing resume file: Unsupported file type: ''
                         @ content_type file)]
       \<and> FileRead \<notin> set (snd (parse_resume_file env file))
       \<and> PdfDecode \<notin> set (snd (parse_resume_file env file))
       \<and> DocxDecode \<notin> set (snd (parse_resume_file env file))"
  using assms by (simp add: parse_resume_file_def extract_text_def)

theorem unsupported_type_fails_before_decoding_witness:
  "parse_resume_file
     \<lparr>PDF_AVAILABLE = True, DOCX_AVAILABLE = True,
      pdf_pages = (\<lambda>b. Inr []), docx_paragraphs = (\<lambda>b. Inr []),
      nlp = None, utcnow = ''2024-01-01T00:00:00''\<rparr>
     \<lparr>upload_filename = ''photo.png'', content_type = ''image/png'', content = ''x''\<rparr>
   = (Inl (ValueError ''Unsupported file type: image/png''),
      [LogError ''Error parsing resume file: Unsupported file type: image/png''])"
  using unsupported_type_fails_before_decoding[of
     "\<lparr>upload_filename = ''photo.png'', content_type = ''image/png'', content = ''x''\<rparr>"
     "\<lparr>PDF_AVAILABLE = True, DOCX_AVAILABLE = True,
      pdf_pages = (\<lambda>b. Inr []), docx_paragraphs = (\<lambda>b. Inr []),
      nlp = None, utcnow = ''2024-01-01T00:00:00''\<rparr>"]
  by (simp add: prod_eq_iff)

section \<open>Graduation years\<close>

lemma century_group:
  "st \<in> set (rmatch False (Grp 1 (Alt (lits ''19'') (lits ''20''))) (p, s, g)) \<Longrightarrow>
     snd (snd st) = (1, ''19'') # g \<or> snd (snd st) = (1, ''20'') # g"
proof (cases s)
  case Nil
  assume "st \<in> set (rmatch False (Grp 1 (Alt (lits ''19'') (lits ''20''))) (p, s, g))"
  with Nil show ?thesis by simp
next
  case (Cons a s')
  assume m: "st \<in> set (rmatch False (Grp 1 (Alt (lits ''19'') (lits ''20''))) (p, s, g))"
  show ?thesis
  proof (cases s')
    case Nil
    with Cons m show ?thesis by (simp split: if_splits)
  next
    case (Cons b s'')
    with \<open>s = a # s'\<close> m show ?thesis by (auto split: if_splits)
  qed
qed

lemma two_digits_keep_groups:
  "st \<in> set (rmatch False (seqs [times 2 (Cls py_isdecimal), WordB]) (p, s, g)) \<Longrightarrow>
     snd (snd st) = g"
proof (cases s)
  case Nil
  assume "st \<in> set (rmatch False (seqs [times 2 (Cls py_isdecimal), WordB]) (p, s, g))"
  with Nil show ?thesis by (simp add: numeral_2_eq_2)
next
  case (Cons a s')
  assume m: "st \<in> set (rmatch False (seqs [times 2 (Cls py_isdecimal), WordB]) (p, s, g))"
  show ?thesis
  proof (cases s')
    case Nil
    with Cons m show ?thesis by (simp add: numeral_2_eq_2 split: if_splits)
  next
    case (Cons b s'')
    with \<open>s = a # s'\<close> m show ?thesis by (auto simp: numeral_2_eq_2 split: if_splits)
  qed
qed

lemma year_pattern_groups:
  assumes "st \<in> set (rmatch False year_pattern (p, s, []))"
  shows "snd (snd st) = [(1, ''19'')] \<or> snd (snd st) = [(1, ''20'')]"
proof -
  let ?G = "Grp 1 (Alt (lits ''19'') (lits ''20''))"
  let ?R = "seqs [times 2 (Cls py_isdecimal), WordB]"
  have yp: "year_pattern = Seq WordB (Seq ?G ?R)"
    by (simp add: year_pattern_def)
  from assms have "st \<in> set (rmatch False (Seq ?G ?R) (p, s, []))"
    unfolding yp by (simp split: if_splits del: seqs.simps times.simps lits.simps)
  then obtain st1 where 1: "st1 \<in> set (rmatch False ?G (p, s, []))"
      and 2: "st \<in> set (rmatch False ?R st1)"
    by (auto simp del: seqs.simps times.simps lits.simps rmatch.simps(12) simp add: rmatch.simps(7))
  from century_group[OF 1]
  have c: "snd (snd st1) = [(1, ''19'')] \<or> snd (snd st1) = [(1, ''20'')]" .
  obtain p1 s1 g1 where st1: "st1 = (p1, s1, g1)" by (cases st1) auto
  from 2 have "snd (snd st) = g1"
    unfolding st1 by (rule two_digits_keep_groups)
  with c st1 show ?thesis by simp
qed

lemma findall_year_groups:
  "m \<in> set (findall_from False year_pattern p s) \<Longrightarrow>
     snd m = [(1, ''19'')] \<or> snd m = [(1, ''20'')]"
proof (induction False year_pattern p s rule: findall_from.induct)
  case (1 p s)
  show ?case
  proof (cases "rmatch False year_pattern (p, s, [])")
    case Nil
    show ?thesis
    proof (cases s)
      case Nil
      with 1(4) \<open>rmatch False year_pattern (p, s, []) = []\<close> show ?thesis
        by (simp add: findall_from.simps[of False year_pattern p "[]"])
    next
      case (Cons c cs)
      with 1(4) \<open>rmatch False year_pattern (p, s, []) = []\<close>
      have "m \<in> set (findall_from False year_pattern (Some c) cs)"
        by (simp add: findall_from.simps[of False year_pattern p "c # cs"])
      with 1(1)[OF \<open>rmatch False year_pattern (p, s, []) = []\<close> Cons] show ?thesis .
    qed
  next
    case (Cons st sts)
    then have "st \<in> set (rmatch False year_pattern (p, s, []))" by simp
    then have g: "snd (snd st) = [(1, ''19'')] \<or> snd (snd st) = [(1, ''20'')]"
      by (rule year_pattern_groups)
    from 1(4) Cons have "m = (take (length s - length (fst (snd st))) s, snd (snd st))
        \<or> (shorter s st \<and> m \<in> set (findall_from False year_pattern (fst st) (fst (snd st))))
        \<or> (\<not> shorter s st \<and> (\<exists>c cs. s = c # cs \<and> m \<in> set (findall_from False year_pattern (Some c) cs)))"
      by (auto simp: findall_from.simps[of False year_pattern p s] split: if_splits list.splits)
    then show ?thesis
      using g 1(2)[OF Cons] 1(3)[OF Cons] by auto
  qed
qed

lemma graduation_years_eq:
  "graduation_years (extract_education text)
     = py_list_set (map (group 1) (findall False year_pattern text))"
  by (simp add: extract_education_def Let_def)

lemma graduation_years_prefixes:
  "set (graduation_years (extract_education text)) \<subseteq> {''19'', ''20''}"
proof
  fix y assume "y \<in> set (graduation_years (extract_education text))"
  then obtain m where m: "m \<in> set (findall_from False year_pattern None text)"
      and y: "y = group 1 m"
    by (auto simp: graduation_years_eq py_list_set_def findall_def)
  from findall_year_groups[OF m] y show "y \<in> {''19'', ''20''}"
    by (auto simp: group_def)
qed

lemma years_example:
  "py_list_set (map (group 1) (findall False year_pattern ''Graduated in 2019'')) = [''20'']"
  by code_simp

text \<open>
  Claim C1 does not hold of the code. The pattern captures only the two leading digits, and
  \<open>findall\<close> returns the text of the group: on the text Graduated in 2019 the field
  holds the string 20 and not the year 2019, and on every text it holds nothing but the
  strings 19 and 20.
\<close>

theorem graduation_years_are_century_prefixes:
  "graduation_years (extract_education ''Graduated in 2019'') = [''20'']
   \<and> set (graduation_years (extract_education text)) \<subseteq> {''19'', ''20''}"
proof
  show "graduation_years (extract_education ''Graduated in 2019'') = [''20'']"
    by (simp only: graduation_years_eq years_example)
next
  show "set (graduation_years (extract_education text)) \<subseteq> {''19'', ''20''}"
    by (rule graduation_years_prefixes)
qed

section \<open>Job titles\<close>

lemma py_lower_c_backspace: "py_lower_c d = CHR 0x08 \<longleftrightarrow> d = CHR 0x08"
proof
  assume a: "py_lower_c d = CHR 0x08"
  show "d = CHR 0x08"
  proof (cases "py_isupper d")
    case False
    with a show ?thesis by (simp add: py_lower_c_def)
  next
    case True
    then have le: "(of_char d :: nat) \<le> 222" and ge: "65 \<le> (of_char d :: nat)"
      by (auto simp: py_isupper_def in_range_def)
    from True a have "char_of (of_char d + (32::nat)) = CHR 0x08"
      by (simp add: py_lower_c_def)
    then have "(of_char (char_of (of_char d + (32::nat)) :: char) :: nat) = of_char (CHR 0x08)"
      by simp
    then have "(of_char d + 32) mod 256 = (8::nat)" by simp
    with le ge show ?thesis by simp
  qed
next
  assume "d = CHR 0x08"
  then show "py_lower_c d = CHR 0x08"
    by (simp add: py_lower_c_def py_isupper_def in_range_def)
qed

lemma title_pattern_head: "\<exists>r. title_pattern keyword = Seq (Lit (CHR 0x08)) r"
  by (simp add: title_pattern_def)

lemma lit_backspace_fails:
  "s = [] \<or> hd s \<noteq> CHR 0x08 \<Longrightarrow> rmatch True (Lit (CHR 0x08)) (p, s, g) = []"
proof (cases s)
  case Nil
  then show ?thesis by simp
next
  case (Cons d ds)
  assume "s = [] \<or> hd s \<noteq> CHR 0x08"
  with Cons have "d \<noteq> CHR 0x08" by simp
  then have "py_lower_c d \<noteq> py_lower_c (CHR 0x08)"
    using py_lower_c_backspace[of d] py_lower_c_backspace[of "CHR 0x08"] by simp
  with Cons show ?thesis by simp
qed

lemma title_pattern_needs_backspace:
  assumes "s = [] \<or> hd s \<noteq> CHR 0x08"
  shows "rmatch True (title_pattern keyword) (p, s, g) = []"
proof -
  obtain r where r: "title_pattern keyword = Seq (Lit (CHR 0x08)) r"
    using title_pattern_head by blast
  have "rmatch True (Seq (Lit (CHR 0x08)) r) (p, s, g)
      = concat (map (rmatch True r) (rmatch True (Lit (CHR 0x08)) (p, s, g)))"
    by (rule rmatch.simps)
  also have "\<dots> = []" by (simp only: lit_backspace_fails[OF assms] list.map concat.simps)
  finally show ?thesis by (simp only: r)
qed

lemma findall_title_pattern_empty:
  "CHR 0x08 \<notin> set s \<Longrightarrow> findall_from True (title_pattern keyword) p s = []"
proof (induction s arbitrary: p)
  case Nil
  then show ?case
    by (simp add: findall_from.simps[of _ _ _ "[]"] title_pattern_needs_backspace)
next
  case (Cons c cs)
  then have "c \<noteq> CHR 0x08" by auto
  then have "rmatch True (title_pattern keyword) (p, c # cs, []) = []"
    by (intro title_pattern_needs_backspace) simp
  with Cons show ?case
    by (simp add: findall_from.simps[of _ _ _ "c # cs"])
qed

lemma all_job_titles_empty: "CHR 0x08 \<notin> set text \<Longrightarrow> all_job_titles text = []"
  by (simp add: all_job_titles_def titles_for_def findall_def findall_title_pattern_empty)

text \<open>
  Claim C2 does not hold of the code. The pattern of a job title starts with the backspace
  character, so a text without that character has no job title at all: the text
  senior software engineer gives the empty list. In every result the list holds no title
  twice and at most five titles.
\<close>

theorem job_titles_need_backspace:
  "(CHR 0x08 \<notin> set text
      \<longrightarrow> (\<forall>r. extract_experience text = Inr r \<longrightarrow> job_titles r = []))
   \<and> (\<forall>r. extract_experience text = Inr r
         \<longrightarrow> distinct (job_titles r) \<and> length (job_titles r) \<le> 5)"
  using extract_experience_Inr[of "text"]
  by (auto simp: all_job_titles_empty py_list_set_def)

lemma no_backspace_example: "CHR 0x08 \<notin> set ''senior software engineer''"
  by simp

lemma total_experience_senior: "total_experience ''senior software engineer'' = Inr None"
  by code_simp

theorem job_titles_need_backspace_witness:
  "map_sum message job_titles (extract_experience ''senior software engineer'') = Inr []"
proof -
  obtain r where r: "extract_experience ''senior software engineer'' = Inr r"
    using extract_experience_returns[OF total_experience_senior] by blast
  from job_titles_need_backspace[of "''senior software engineer''", THEN conjunct1]
    no_backspace_example
  have "\<forall>r. extract_experience ''senior software engineer'' = Inr r \<longrightarrow> job_titles r = []"
    by (rule mp)
  with r have "job_titles r = []" by blast
  with r show ?thesis by simp
qed

end
